theory Spec2Isabelle
  imports Complex_Main "HOL-Library.Stream"
begin

section \<open>Data model (App.tsx, lines 4-15)\<close>

text \<open>
  \<^verbatim>\<open>interface Position { x: number; y: number }\<close>. The coordinates the game ever stores are
  small integers, so they are modelled as \<open>int\<close>. The fields are called \<open>posx\<close> and
  \<open>posy\<close> because a record field named \<open>x\<close> would capture every variable of that name.
\<close>

record Position =
  posx :: int
  posy :: int

datatype Direction = UP | DOWN | LEFT | RIGHT

datatype GameState = START | PLAYING | PAUSED | GAME_OVER

definition GRID_SIZE :: int where
  "GRID_SIZE = 20"

definition INITIAL_SNAKE :: "Position list" where
  "INITIAL_SNAKE = [\<lparr>posx = 10, posy = 10\<rparr>]"

definition INITIAL_FOOD :: Position where
  "INITIAL_FOOD = \<lparr>posx = 15, posy = 15\<rparr>"

definition INITIAL_DIRECTION :: Direction where
  "INITIAL_DIRECTION = RIGHT"

section \<open>JavaScript built-ins used by the component\<close>

text \<open>
  The high score is the result of \<^verbatim>\<open>parseInt\<close>, which is an integer or \<^verbatim>\<open>NaN\<close>.
  Integers are taken as mathematical integers (no rounding to binary64).
\<close>

datatype jsnum = Num int | NaN

text \<open>\<^verbatim>\<open>a > b\<close> for an integer \<open>a\<close> and a number \<open>b\<close>: every comparison with NaN is false.\<close>

fun js_gt :: "int \<Rightarrow> jsnum \<Rightarrow> bool" where
  "js_gt a (Num b) = (b < a)"
| "js_gt a NaN = False"

text \<open>
  \<^verbatim>\<open>parseInt(s)\<close> with no radix, after ECMAScript: skip leading white space, read an
  optional sign, switch to radix 16 on a \<^verbatim>\<open>0x\<close> prefix, take the longest prefix of digits
  of the radix; no digit gives NaN. Strings are 8-bit here, so white space is the
  Latin-1 part of the ECMAScript set.
\<close>

definition isWhiteSpace :: "char \<Rightarrow> bool" where
  "isWhiteSpace c = ((of_char c :: nat) \<in> {9, 10, 11, 12, 13, 32, 160})"

definition digitValue :: "char \<Rightarrow> nat option" where
  "digitValue c =
     (let n = (of_char c :: nat) in
      if 48 \<le> n \<and> n \<le> 57 then Some (n - 48)
      else if 97 \<le> n \<and> n \<le> 122 then Some (n - 87)
      else if 65 \<le> n \<and> n \<le> 90 then Some (n - 55)
      else None)"

definition radixDigit :: "nat \<Rightarrow> char \<Rightarrow> bool" where
  "radixDigit R c = (case digitValue c of Some d \<Rightarrow> d < R | None \<Rightarrow> False)"

definition mathInt :: "nat \<Rightarrow> string \<Rightarrow> nat" where
  "mathInt R Z = foldl (\<lambda>acc c. case digitValue c of Some d \<Rightarrow> acc * R + d | None \<Rightarrow> acc) 0 Z"

definition parseInt :: "string \<Rightarrow> jsnum" where
  "parseInt s =
     (let S = dropWhile isWhiteSpace s;
          sign = (if S \<noteq> [] \<and> hd S = CHR ''-'' then - 1 else 1 :: int);
          S1 = (if S \<noteq> [] \<and> (hd S = CHR ''+'' \<or> hd S = CHR ''-'') then tl S else S);
          hex = (take 2 S1 = ''0x'' \<or> take 2 S1 = ''0X'');
          R = (if hex then 16 else 10);
          S2 = (if hex then drop 2 S1 else S1);
          Z = takeWhile (radixDigit R) S2
      in if Z = [] then NaN else Num (sign * int (mathInt R Z)))"

text \<open>\<^verbatim>\<open>n.toString()\<close> for an integer: decimal digits, with a minus sign when negative.\<close>

definition digitChar :: "nat \<Rightarrow> char" where
  "digitChar d = ''0123456789'' ! d"

fun digits :: "nat \<Rightarrow> string" where
  "digits n = (if n < 10 then [digitChar n] else digits (n div 10) @ [digitChar (n mod 10)])"

declare digits.simps [simp del]

definition toString :: "int \<Rightarrow> string" where
  "toString i = (if i < 0 then CHR ''-'' # digits (nat (- i)) else digits (nat i))"

text \<open>
  \<^verbatim>\<open>key.toLowerCase()\<close> on the letters A to Z; no other 8-bit character lower-cases to a
  character of a case label of \<^verbatim>\<open>handleKeyPress\<close>.
\<close>

definition lowerChar :: "char \<Rightarrow> char" where
  "lowerChar c =
     (case map_of (zip ''ABCDEFGHIJKLMNOPQRSTUVWXYZ'' ''abcdefghijklmnopqrstuvwxyz'') c of
        Some l \<Rightarrow> l
      | None \<Rightarrow> c)"

definition toLowerCase :: "string \<Rightarrow> string" where
  "toLowerCase s = map lowerChar s"

section \<open>Component state (App.tsx, lines 21-30)\<close>

text \<open>
  The \<^verbatim>\<open>useState\<close> cells of the component, together with the three pieces of the
  environment its handlers touch: the \<^verbatim>\<open>snakeHighScore\<close> entry of local storage, the
  values \<^verbatim>\<open>Math.random()\<close> will return, and the number of pending \<^verbatim>\<open>setTimeout\<close>
  callbacks registered by \<^verbatim>\<open>startGame\<close>.
\<close>

record App =
  snake :: "Position list"
  food :: Position
  direction :: Direction
  gameState :: GameState
  score :: int
  highScore :: jsnum
  gridWidth :: int
  gridHeight :: int
  localStorage :: "string option"
  mathRandom :: "real stream"
  timeouts :: nat

text \<open>
  Line 27: \<^verbatim>\<open>parseInt(localStorage.getItem('snakeHighScore') || '0')\<close>. The operator
  \<^verbatim>\<open>||\<close> replaces \<^verbatim>\<open>null\<close> (no entry) and the empty string by \<^verbatim>\<open>'0'\<close>.
\<close>

definition initialHighScore :: "string option \<Rightarrow> jsnum" where
  "initialHighScore item =
     parseInt (case item of None \<Rightarrow> ''0'' | Some s \<Rightarrow> if s = [] then ''0'' else s)"

definition initialApp :: "string option \<Rightarrow> real stream \<Rightarrow> App" where
  "initialApp item rs =
     \<lparr>snake = INITIAL_SNAKE, food = INITIAL_FOOD, direction = INITIAL_DIRECTION,
      gameState = START, score = 0, highScore = initialHighScore item,
      gridWidth = 25, gridHeight = 20, localStorage = item, mathRandom = rs, timeouts = 0\<rparr>"

section \<open>Operations\<close>

text \<open>
  Lines 34-41, \<^verbatim>\<open>updateGridSize\<close>: the argument is the bounding rectangle of the canvas
  (width, height), or \<open>None\<close> when \<^verbatim>\<open>canvasRef.current\<close> is null.
\<close>

definition updateGridSize :: "(real \<times> real) option \<Rightarrow> App \<Rightarrow> App" where
  "updateGridSize rect g =
     (case rect of
        None \<Rightarrow> g
      | Some (w, h) \<Rightarrow> g\<lparr>gridWidth := \<lfloor>w / of_int GRID_SIZE\<rfloor>, gridHeight := \<lfloor>h / of_int GRID_SIZE\<rfloor>\<rparr>)"

text \<open>
  Lines 48-57, \<^verbatim>\<open>generateFood\<close>: a do-while loop that draws two random numbers per
  round and repeats while the candidate lies on the snake. Nothing bounds the number of
  rounds, so the function is partial: \<open>None\<close> is a loop that never ends. The result
  carries the random numbers not yet consumed.
\<close>

partial_function (option) generateFood ::
  "int \<Rightarrow> int \<Rightarrow> Position list \<Rightarrow> real stream \<Rightarrow> (Position \<times> real stream) option" where
  "generateFood w h currentSnake rs =
     (let newFood = \<lparr>posx = \<lfloor>shd rs * of_int w\<rfloor>, posy = \<lfloor>shd (stl rs) * of_int h\<rfloor>\<rparr>;
          rs' = stl (stl rs)
      in if list_ex (\<lambda>segment. posx segment = posx newFood \<and> posy segment = posy newFood) currentSnake
         then generateFood w h currentSnake rs'
         else Some (newFood, rs'))"

text \<open>Lines 59-65, \<^verbatim>\<open>resetGame\<close>.\<close>

definition resetGame :: "App \<Rightarrow> App option" where
  "resetGame g =
     (case generateFood (gridWidth g) (gridHeight g) INITIAL_SNAKE (mathRandom g) of
        None \<Rightarrow> None
      | Some (f, rs) \<Rightarrow>
          Some (g\<lparr>snake := INITIAL_SNAKE, food := f, direction := INITIAL_DIRECTION,
                  score := 0, gameState := START, mathRandom := rs\<rparr>))"

text \<open>Lines 67-74, \<^verbatim>\<open>checkCollision\<close>.\<close>

definition checkCollision :: "int \<Rightarrow> int \<Rightarrow> Position \<Rightarrow> Position list \<Rightarrow> bool" where
  "checkCollision w h head body =
     (if posx head < 0 \<or> posx head \<ge> w \<or> posy head < 0 \<or> posy head \<ge> h then True
      else list_ex (\<lambda>segment. posx segment = posx head \<and> posy segment = posy head) body)"

text \<open>Lines 81-94: the \<^verbatim>\<open>switch\<close> that moves the copy of the head by one cell.\<close>

fun moveHead :: "Direction \<Rightarrow> Position \<Rightarrow> Position" where
  "moveHead UP head = head\<lparr>posy := posy head - 1\<rparr>"
| "moveHead DOWN head = head\<lparr>posy := posy head + 1\<rparr>"
| "moveHead LEFT head = head\<lparr>posx := posx head - 1\<rparr>"
| "moveHead RIGHT head = head\<lparr>posx := posx head + 1\<rparr>"

text \<open>
  Lines 76-120, \<^verbatim>\<open>moveSnake\<close>, one tick. On an empty snake the JavaScript builds a head
  with NaN coordinates, which collides with nothing and is no food, prepends it and pops
  it again: the snake stays empty and nothing else changes.
\<close>

definition moveSnake :: "App \<Rightarrow> App option" where
  "moveSnake g =
     (case snake g of
        [] \<Rightarrow> Some g
      | h0 # _ \<Rightarrow>
          (let head = moveHead (direction g) h0 in
           if checkCollision (gridWidth g) (gridHeight g) head (snake g)
           then Some (g\<lparr>gameState := GAME_OVER\<rparr>)
           else
             (let newSnake = head # snake g in
              if posx head = posx (food g) \<and> posy head = posy (food g)
              then
                (case generateFood (gridWidth g) (gridHeight g) newSnake (mathRandom g) of
                   None \<Rightarrow> None
                 | Some (f, rs) \<Rightarrow>
                     (let newScore = score g + 10;
                          g1 = (if js_gt newScore (highScore g)
                                then g\<lparr>highScore := Num newScore,
                                       localStorage := Some (toString newScore)\<rparr>
                                else g)
                      in Some (g1\<lparr>snake := newSnake, food := f, score := newScore,
                                  mathRandom := rs\<rparr>)))
              else Some (g\<lparr>snake := butlast newSnake\<rparr>))))"

text \<open>Lines 122-151, \<^verbatim>\<open>handleKeyPress\<close>; the argument is \<^verbatim>\<open>e.key\<close>.\<close>

definition handleKeyPress :: "string \<Rightarrow> App \<Rightarrow> App" where
  "handleKeyPress key g =
     (if gameState g \<noteq> PLAYING then g
      else
        (let k = toLowerCase key in
         if k = ''arrowup'' \<or> k = ''w''
         then g\<lparr>direction := (if direction g \<noteq> DOWN then UP else direction g)\<rparr>
         else if k = ''arrowdown'' \<or> k = ''s''
         then g\<lparr>direction := (if direction g \<noteq> UP then DOWN else direction g)\<rparr>
         else if k = ''arrowleft'' \<or> k = ''a''
         then g\<lparr>direction := (if direction g \<noteq> RIGHT then LEFT else direction g)\<rparr>
         else if k = ''arrowright'' \<or> k = ''d''
         then g\<lparr>direction := (if direction g \<noteq> LEFT then RIGHT else direction g)\<rparr>
         else if k = '' ''
         then g\<lparr>gameState := PAUSED\<rparr>
         else g))"

text \<open>
  Lines 245-253, \<^verbatim>\<open>startGame\<close>. The call \<^verbatim>\<open>setTimeout(() => setGameState('PLAYING'), 100)\<close>
  registers a callback; \<open>startTimeout\<close> is that callback.
\<close>

definition startGame :: "App \<Rightarrow> App option" where
  "startGame g =
     (if gameState g = START \<or> gameState g = GAME_OVER
      then
        (case (if gameState g = GAME_OVER then resetGame g else Some g) of
           None \<Rightarrow> None
         | Some g1 \<Rightarrow> Some (g1\<lparr>gameState := START, timeouts := Suc (timeouts g1)\<rparr>))
      else Some g)"

definition startTimeout :: "App \<Rightarrow> App" where
  "startTimeout g = g\<lparr>gameState := PLAYING\<rparr>"

text \<open>Lines 255-261, \<^verbatim>\<open>togglePause\<close>.\<close>

definition togglePause :: "App \<Rightarrow> App" where
  "togglePause g =
     (if gameState g = PLAYING then g\<lparr>gameState := PAUSED\<rparr>
      else if gameState g = PAUSED then g\<lparr>gameState := PLAYING\<rparr>
      else g)"

text \<open>Lines 263-274, \<^verbatim>\<open>handleTouch\<close>.\<close>

definition handleTouch :: "Direction \<Rightarrow> App \<Rightarrow> App" where
  "handleTouch d g =
     (if gameState g \<noteq> PLAYING then g
      else g\<lparr>direction :=
             (case d of
                UP \<Rightarrow> if direction g \<noteq> DOWN then UP else direction g
              | DOWN \<Rightarrow> if direction g \<noteq> UP then DOWN else direction g
              | LEFT \<Rightarrow> if direction g \<noteq> RIGHT then LEFT else direction g
              | RIGHT \<Rightarrow> if direction g \<noteq> LEFT then RIGHT else direction g)\<rparr>)"

section \<open>Event loop\<close>

text \<open>
  Everything that can happen to the mounted component: the interval of the game loop
  fires (lines 159-173: it is armed only while the state is PLAYING), a key goes down, a
  touch button is pressed, one of the three buttons is clicked, a pending start timeout
  fires, the window is resized.
\<close>

datatype Event =
    Tick
  | KeyDown string
  | Touch Direction
  | ClickStart
  | ClickPause
  | ClickReset
  | Timeout
  | Resize "(real \<times> real) option"

fun dispatch :: "Event \<Rightarrow> App \<Rightarrow> App option" where
  "dispatch Tick g = (if gameState g = PLAYING then moveSnake g else Some g)"
| "dispatch (KeyDown key) g = Some (handleKeyPress key g)"
| "dispatch (Touch d) g = Some (handleTouch d g)"
| "dispatch ClickStart g = startGame g"
| "dispatch ClickPause g = Some (togglePause g)"
| "dispatch ClickReset g = resetGame g"
| "dispatch Timeout g =
     (if 0 < timeouts g then Some (startTimeout (g\<lparr>timeouts := timeouts g - 1\<rparr>)) else Some g)"
| "dispatch (Resize rect) g = Some (updateGridSize rect g)"

fun run :: "Event list \<Rightarrow> App \<Rightarrow> App option" where
  "run [] g = Some g"
| "run (e # es) g = (case dispatch e g of None \<Rightarrow> None | Some g' \<Rightarrow> run es g')"

text \<open>The scores shown along a run, the starting one first.\<close>

fun scoresSeen :: "Event list \<Rightarrow> App \<Rightarrow> int list" where
  "scoresSeen [] g = [score g]"
| "scoresSeen (e # es) g =
     score g # (case dispatch e g of None \<Rightarrow> [] | Some g' \<Rightarrow> scoresSeen es g')"

section \<open>Notions used to state the properties\<close>

text \<open>
  The cell that round \<open>n\<close> of the loop of \<^verbatim>\<open>generateFood\<close> draws (rounds count from 0):
  round \<open>n\<close> consumes the random numbers \<open>2n\<close> and \<open>2n + 1\<close>.
\<close>

definition candidate :: "int \<Rightarrow> int \<Rightarrow> real stream \<Rightarrow> nat \<Rightarrow> Position" where
  "candidate w h rs n =
     \<lparr>posx = \<lfloor>rs !! (2 * n) * of_int w\<rfloor>, posy = \<lfloor>rs !! (2 * n + 1) * of_int h\<rfloor>\<rparr>"

text \<open>
  The direct opposite of a direction, as the specification words it (UP and DOWN, LEFT
  and RIGHT); the handlers spell the four comparisons out.
\<close>

fun opposite :: "Direction \<Rightarrow> Direction" where
  "opposite UP = DOWN"
| "opposite DOWN = UP"
| "opposite LEFT = RIGHT"
| "opposite RIGHT = LEFT"

text \<open>The direction a lower-cased key stands for: the case labels of \<^verbatim>\<open>handleKeyPress\<close>.\<close>

definition keyDirection :: "string \<Rightarrow> Direction option" where
  "keyDirection k =
     (if k = ''arrowup'' \<or> k = ''w'' then Some UP
      else if k = ''arrowdown'' \<or> k = ''s'' then Some DOWN
      else if k = ''arrowleft'' \<or> k = ''a'' then Some LEFT
      else if k = ''arrowright'' \<or> k = ''d'' then Some RIGHT
      else None)"

text \<open>
  A short session: start, let the timeout fire, five ticks to the right, turn down, five
  ticks down. The fifth of them reaches the initial food cell (15, 15).
\<close>

definition play :: "Event list" where
  "play = [ClickStart, Timeout, Tick, Tick, Tick, Tick, Tick, KeyDown ''s'',
           Tick, Tick, Tick, Tick, Tick]"

section \<open>Evaluation on concrete states\<close>

lemmas eval_defs = initialApp_def initialHighScore_def parseInt_def isWhiteSpace_def radixDigit_def
  digitValue_def mathInt_def INITIAL_SNAKE_def INITIAL_FOOD_def INITIAL_DIRECTION_def Let_def
  checkCollision_def

lemmas step_defs = moveSnake_def generateFood.simps toString_def digits.simps digitChar_def
  handleKeyPress_def handleTouch_def toLowerCase_def lowerChar_def startGame_def startTimeout_def
  resetGame_def

section \<open>Cells and food placement\<close>

lemma same_cell: "(posx s = posx p \<and> posy s = posy p) = (s = (p::Position))"
  by (cases s, cases p) auto

lemma on_snake:
  "list_ex (\<lambda>segment. posx segment = posx p \<and> posy segment = posy p) body
     = ((p::Position) \<in> set body)"
  by (auto simp: list_ex_iff same_cell)

lemma generateFood_outside:
  assumes "generateFood w h body rs = Some r"
  shows "fst r \<notin> set body"
  using assms
  by (induct rule: generateFood.raw_induct [rotated 1, consumes 1])
    (auto simp: Let_def on_snake split: if_splits)

lemma candidate_0:
  "candidate w h rs 0 = \<lparr>posx = \<lfloor>shd rs * of_int w\<rfloor>, posy = \<lfloor>shd (stl rs) * of_int h\<rfloor>\<rparr>"
  by (simp add: candidate_def)

lemma candidate_Suc: "candidate w h rs (Suc n) = candidate w h (stl (stl rs)) n"
  by (simp add: candidate_def)

text \<open>The loop ends as soon as some round draws a cell off the snake.\<close>

lemma generateFood_returns:
  "candidate w h rs n \<notin> set body \<Longrightarrow> \<exists>r. generateFood w h body rs = Some r"
proof (induction n arbitrary: rs)
  case 0
  then show ?case
    by (subst generateFood.simps) (auto simp: candidate_0 Let_def on_snake)
next
  case (Suc n)
  then have "\<exists>r. generateFood w h body (stl (stl rs)) = Some r"
    by (simp add: candidate_Suc)
  then show ?case
    by (subst generateFood.simps) (auto simp: Let_def)
qed

lemma resetGame_Some:
  "resetGame g = Some g' \<Longrightarrow>
     \<exists>f rs'. generateFood (gridWidth g) (gridHeight g) INITIAL_SNAKE (mathRandom g) = Some (f, rs')
       \<and> f \<notin> set INITIAL_SNAKE
       \<and> g' = g\<lparr>snake := INITIAL_SNAKE, food := f, direction := INITIAL_DIRECTION,
                 score := 0, gameState := START, mathRandom := rs'\<rparr>"
  by (auto simp: resetGame_def split: option.splits dest: generateFood_outside)

lemma resetGame_returns:
  assumes "candidate (gridWidth g) (gridHeight g) (mathRandom g) n \<notin> set INITIAL_SNAKE"
  shows "\<exists>g'. resetGame g = Some g'"
proof -
  from generateFood_returns [OF assms] obtain r
    where "generateFood (gridWidth g) (gridHeight g) INITIAL_SNAKE (mathRandom g) = Some r" ..
  then show ?thesis by (cases r) (simp add: resetGame_def)
qed

section \<open>One tick\<close>

lemma checkCollision_iff:
  "checkCollision w h p body =
     (posx p < 0 \<or> w \<le> posx p \<or> posy p < 0 \<or> h \<le> posy p \<or> p \<in> set body)"
  by (auto simp: checkCollision_def on_snake)

lemma moveSnake_empty: "snake g = [] \<Longrightarrow> moveSnake g = Some g"
  by (simp add: moveSnake_def)

lemma moveSnake_fatal:
  "snake g = h0 # t
     \<Longrightarrow> checkCollision (gridWidth g) (gridHeight g) (moveHead (direction g) h0) (snake g)
     \<Longrightarrow> moveSnake g = Some (g\<lparr>gameState := GAME_OVER\<rparr>)"
  by (simp add: moveSnake_def)

lemma moveSnake_step:
  "snake g = h0 # t
     \<Longrightarrow> \<not> checkCollision (gridWidth g) (gridHeight g) (moveHead (direction g) h0) (snake g)
     \<Longrightarrow> moveHead (direction g) h0 \<noteq> food g
     \<Longrightarrow> moveSnake g = Some (g\<lparr>snake := moveHead (direction g) h0 # butlast (snake g)\<rparr>)"
  by (simp add: moveSnake_def same_cell)

lemma moveSnake_eat:
  "snake g = h0 # t
     \<Longrightarrow> \<not> checkCollision (gridWidth g) (gridHeight g) (moveHead (direction g) h0) (snake g)
     \<Longrightarrow> moveHead (direction g) h0 = food g
     \<Longrightarrow> moveSnake g = Some g'
     \<Longrightarrow> snake g' = food g # snake g \<and> score g' = score g + 10
         \<and> food g' \<notin> set (snake g')
         \<and> highScore g' =
             (if js_gt (score g + 10) (highScore g) then Num (score g + 10) else highScore g)"
  by (auto simp: moveSnake_def Let_def split: option.splits dest: generateFood_outside)

text \<open>
  A tick that moves without eating always returns; a tick that eats returns as soon as
  some round of the food loop draws a cell off the grown snake.
\<close>

lemma moveSnake_returns:
  assumes "snake g = h0 # t"
    and "moveHead (direction g) h0 = food g \<longrightarrow>
           candidate (gridWidth g) (gridHeight g) (mathRandom g) n \<notin> set (food g # snake g)"
  shows "\<exists>g'. moveSnake g = Some g'"
proof (cases "checkCollision (gridWidth g) (gridHeight g) (moveHead (direction g) h0) (snake g)")
  case True
  from moveSnake_fatal [OF assms(1) True] show ?thesis by blast
next
  case free: False
  show ?thesis
  proof (cases "moveHead (direction g) h0 = food g")
    case True
    with assms(2) have "candidate (gridWidth g) (gridHeight g) (mathRandom g) n
        \<notin> set (moveHead (direction g) h0 # snake g)"
      by simp
    from generateFood_returns [OF this] obtain r
      where "generateFood (gridWidth g) (gridHeight g) (moveHead (direction g) h0 # snake g)
               (mathRandom g) = Some r" ..
    with assms(1) free True show ?thesis
      by (cases r) (simp add: moveSnake_def same_cell Let_def)
  next
    case False
    from moveSnake_step [OF assms(1) free False] show ?thesis by blast
  qed
qed

text \<open>
  Claim C1. A tick that is not fatal and whose new head is not the food cell returns,
  with the snake as long as before and the score unchanged. A tick that is not fatal and
  whose new head is the food cell yields, whenever it returns, a snake one cell longer
  (the tail stays) and a score 10 higher; it returns as soon as one round of the food
  loop draws a cell off the grown snake.
\<close>

theorem moveSnake_length:
  assumes "snake g = h0 # t"
    and "\<not> checkCollision (gridWidth g) (gridHeight g) (moveHead (direction g) h0) (snake g)"
  shows "(moveHead (direction g) h0 \<noteq> food g \<longrightarrow>
            (\<exists>g'. moveSnake g = Some g' \<and> length (snake g') = length (snake g)
                  \<and> score g' = score g))
       \<and> (moveHead (direction g) h0 = food g \<and> moveSnake g = Some g1 \<longrightarrow>
            length (snake g1) = length (snake g) + 1 \<and> score g1 = score g + 10)
       \<and> (moveHead (direction g) h0 = food g
            \<and> candidate (gridWidth g) (gridHeight g) (mathRandom g) n \<notin> set (food g # snake g) \<longrightarrow>
            moveSnake g \<noteq> None)"
proof (intro conjI impI)
  assume "moveHead (direction g) h0 \<noteq> food g"
  from moveSnake_step [OF assms this] assms(1)
  show "\<exists>g'. moveSnake g = Some g' \<and> length (snake g') = length (snake g) \<and> score g' = score g"
    by simp
next
  assume a: "moveHead (direction g) h0 = food g \<and> moveSnake g = Some g1"
  then have "moveHead (direction g) h0 = food g" and "moveSnake g = Some g1" by simp_all
  from moveSnake_eat [OF assms this] show "length (snake g1) = length (snake g) + 1" by simp
  from a have "moveHead (direction g) h0 = food g" and "moveSnake g = Some g1" by simp_all
  from moveSnake_eat [OF assms this] show "score g1 = score g + 10" by simp
next
  assume "moveHead (direction g) h0 = food g
    \<and> candidate (gridWidth g) (gridHeight g) (mathRandom g) n \<notin> set (food g # snake g)"
  then have "moveHead (direction g) h0 = food g \<longrightarrow>
      candidate (gridWidth g) (gridHeight g) (mathRandom g) n \<notin> set (food g # snake g)"
    by simp
  from moveSnake_returns [OF assms(1) this] show "moveSnake g \<noteq> None" by auto
qed

theorem moveSnake_length_witness:
  "\<not> checkCollision 25 20 \<lparr>posx = 11, posy = 10\<rparr> [\<lparr>posx = 10, posy = 10\<rparr>]
   \<and> moveSnake (initialApp None (sconst 0))
       = Some ((initialApp None (sconst 0))\<lparr>snake := [\<lparr>posx = 11, posy = 10\<rparr>]\<rparr>)
   \<and> candidate 25 20 (sconst 0) 0 \<notin> set [\<lparr>posx = 11, posy = 10\<rparr>, \<lparr>posx = 10, posy = 10\<rparr>]
   \<and> moveSnake ((initialApp None (sconst 0))\<lparr>food := \<lparr>posx = 11, posy = 10\<rparr>\<rparr>) =
       Some ((initialApp None (sconst 0))
              \<lparr>snake := [\<lparr>posx = 11, posy = 10\<rparr>, \<lparr>posx = 10, posy = 10\<rparr>],
               food := \<lparr>posx = 0, posy = 0\<rparr>, score := 10, highScore := Num 10,
               localStorage := Some ''10''\<rparr>)
   \<and> length [\<lparr>posx = 11, posy = 10\<rparr>, \<lparr>posx = 10, posy = 10\<rparr>]
       = length [\<lparr>posx = 10, posy = 10\<rparr>] + 1"
proof -
  let ?a = "initialApp None (sconst 0)"
  let ?g = "(initialApp None (sconst 0))\<lparr>food := \<lparr>posx = 11, posy = 10\<rparr>\<rparr>"
  let ?g' = "(initialApp None (sconst 0))
              \<lparr>snake := [\<lparr>posx = 11, posy = 10\<rparr>, \<lparr>posx = 10, posy = 10\<rparr>],
               food := \<lparr>posx = 0, posy = 0\<rparr>, score := 10, highScore := Num 10,
               localStorage := Some ''10''\<rparr>"
  have a: "snake ?g = \<lparr>posx = 10, posy = 10\<rparr> # []" by (simp add: eval_defs)
  have b: "\<not> checkCollision (gridWidth ?g) (gridHeight ?g)
             (moveHead (direction ?g) \<lparr>posx = 10, posy = 10\<rparr>) (snake ?g)"
    by (simp add: eval_defs)
  have c: "moveSnake ?g = Some ?g'"
    by (simp add: step_defs eval_defs)
  have d: "moveHead (direction ?g) \<lparr>posx = 10, posy = 10\<rparr> = food ?g"
    by (simp add: eval_defs)
  have e: "candidate (gridWidth ?g) (gridHeight ?g) (mathRandom ?g) 0 \<notin> set (food ?g # snake ?g)"
    by (simp add: candidate_def eval_defs)
  have a': "snake ?a = \<lparr>posx = 10, posy = 10\<rparr> # []" by (simp add: eval_defs)
  have b': "\<not> checkCollision (gridWidth ?a) (gridHeight ?a)
             (moveHead (direction ?a) \<lparr>posx = 10, posy = 10\<rparr>) (snake ?a)"
    by (simp add: eval_defs)
  have d': "moveHead (direction ?a) \<lparr>posx = 10, posy = 10\<rparr> \<noteq> food ?a"
    by (simp add: eval_defs)
  have m: "moveSnake ?a = Some (?a\<lparr>snake := [\<lparr>posx = 11, posy = 10\<rparr>]\<rparr>)"
    by (simp add: step_defs eval_defs)
  from moveSnake_length [OF a b, of ?g' 0] c d e
  have "length (snake ?g') = length (snake ?g) + 1 \<and> score ?g' = score ?g + 10
      \<and> moveSnake ?g \<noteq> None"
    by blast
  moreover from moveSnake_length [OF a' b', of ?g' 0] d'
  have "\<exists>g'. moveSnake ?a = Some g' \<and> length (snake g') = length (snake ?a) \<and> score g' = score ?a"
    by blast
  ultimately show ?thesis using c m by (simp add: candidate_def eval_defs)
qed

text \<open>
  Claim C2. When the new head (the head moved one cell in the current direction) is
  outside the grid or on a cell of the current body, the tick ends the game and changes
  nothing else: snake, food and score are those before the tick.
\<close>

theorem moveSnake_fatal_discards:
  assumes "snake g = h0 # t"
    and "nh = moveHead (direction g) h0"
    and "posx nh < 0 \<or> gridWidth g \<le> posx nh \<or> posy nh < 0 \<or> gridHeight g \<le> posy nh
         \<or> nh \<in> set (snake g)"
  shows "moveSnake g = Some (g\<lparr>gameState := GAME_OVER\<rparr>)"
  using assms by (intro moveSnake_fatal) (auto simp: checkCollision_iff)

theorem moveSnake_fatal_discards_witness:
  "snake ((initialApp None (sconst 0))
       \<lparr>snake := [\<lparr>posx = 24, posy = 10\<rparr>, \<lparr>posx = 23, posy = 10\<rparr>, \<lparr>posx = 22, posy = 10\<rparr>],
        gameState := PLAYING, score := 20\<rparr>)
     = [\<lparr>posx = 24, posy = 10\<rparr>, \<lparr>posx = 23, posy = 10\<rparr>, \<lparr>posx = 22, posy = 10\<rparr>]
   \<and> moveHead RIGHT \<lparr>posx = 24, posy = 10\<rparr> = \<lparr>posx = 25, posy = 10\<rparr>
   \<and> gridWidth (initialApp None (sconst 0)) \<le> 25
   \<and> moveSnake ((initialApp None (sconst 0))
       \<lparr>snake := [\<lparr>posx = 24, posy = 10\<rparr>, \<lparr>posx = 23, posy = 10\<rparr>, \<lparr>posx = 22, posy = 10\<rparr>],
        gameState := PLAYING, score := 20\<rparr>)
     = Some ((initialApp None (sconst 0))
       \<lparr>snake := [\<lparr>posx = 24, posy = 10\<rparr>, \<lparr>posx = 23, posy = 10\<rparr>, \<lparr>posx = 22, posy = 10\<rparr>],
        gameState := GAME_OVER, score := 20\<rparr>)"
proof -
  let ?g = "(initialApp None (sconst 0))
       \<lparr>snake := [\<lparr>posx = 24, posy = 10\<rparr>, \<lparr>posx = 23, posy = 10\<rparr>, \<lparr>posx = 22, posy = 10\<rparr>],
        gameState := PLAYING, score := 20\<rparr>"
  have a: "snake ?g = \<lparr>posx = 24, posy = 10\<rparr> # [\<lparr>posx = 23, posy = 10\<rparr>, \<lparr>posx = 22, posy = 10\<rparr>]"
    by (simp add: eval_defs)
  have b: "\<lparr>posx = 25, posy = 10\<rparr> = moveHead (direction ?g) \<lparr>posx = 24, posy = 10\<rparr>"
    by (simp add: eval_defs)
  have c: "posx \<lparr>posx = 25, posy = 10\<rparr> < 0 \<or> gridWidth ?g \<le> posx \<lparr>posx = 25, posy = 10\<rparr>
         \<or> posy \<lparr>posx = 25, posy = 10\<rparr> < 0 \<or> gridHeight ?g \<le> posy \<lparr>posx = 25, posy = 10\<rparr>
         \<or> \<lparr>posx = 25, posy = 10\<rparr> \<in> set (snake ?g)"
    by (simp add: eval_defs)
  from moveSnake_fatal_discards [OF a b c] show ?thesis by (simp add: eval_defs)
qed

text \<open>
  Claim C3. A tick keeps the cells of the snake pairwise distinct: if they are distinct
  before the tick they are distinct after it, whether the tick moves, eats or is fatal.
\<close>

theorem moveSnake_distinct:
  assumes "distinct (snake g)" and "moveSnake g = Some g'"
  shows "distinct (snake g')"
proof (cases "snake g")
  case Nil
  with assms show ?thesis by (simp add: moveSnake_def)
next
  case (Cons h0 t)
  let ?nh = "moveHead (direction g) h0"
  show ?thesis
  proof (cases "checkCollision (gridWidth g) (gridHeight g) ?nh (snake g)")
    case True
    with moveSnake_fatal [OF Cons True] assms show ?thesis by auto
  next
    case free: False
    then have fresh: "?nh \<notin> set (snake g)" by (simp add: checkCollision_iff)
    show ?thesis
    proof (cases "?nh = food g")
      case True
      with moveSnake_eat [OF Cons free True assms(2)] fresh assms(1) show ?thesis by simp
    next
      case False
      from fresh have "?nh \<notin> set (butlast (snake g))" by (auto dest: in_set_butlastD)
      with moveSnake_step [OF Cons free False] assms show ?thesis
        by (auto simp: distinct_butlast)
    qed
  qed
qed

theorem moveSnake_distinct_witness:
  "distinct [\<lparr>posx = 12, posy = 10\<rparr>, \<lparr>posx = 11, posy = 10\<rparr>, \<lparr>posx = 10, posy = 10\<rparr>]
   \<and> moveSnake ((initialApp None (sconst 0))
       \<lparr>snake := [\<lparr>posx = 12, posy = 10\<rparr>, \<lparr>posx = 11, posy = 10\<rparr>, \<lparr>posx = 10, posy = 10\<rparr>]\<rparr>)
     = Some ((initialApp None (sconst 0))
       \<lparr>snake := [\<lparr>posx = 13, posy = 10\<rparr>, \<lparr>posx = 12, posy = 10\<rparr>, \<lparr>posx = 11, posy = 10\<rparr>]\<rparr>)
   \<and> distinct [\<lparr>posx = 13, posy = 10\<rparr>, \<lparr>posx = 12, posy = 10\<rparr>, \<lparr>posx = 11, posy = 10\<rparr>]"
proof -
  let ?g = "(initialApp None (sconst 0))
       \<lparr>snake := [\<lparr>posx = 12, posy = 10\<rparr>, \<lparr>posx = 11, posy = 10\<rparr>, \<lparr>posx = 10, posy = 10\<rparr>]\<rparr>"
  let ?g' = "(initialApp None (sconst 0))
       \<lparr>snake := [\<lparr>posx = 13, posy = 10\<rparr>, \<lparr>posx = 12, posy = 10\<rparr>, \<lparr>posx = 11, posy = 10\<rparr>]\<rparr>"
  have a: "distinct (snake ?g)" by (simp add: eval_defs)
  have b: "moveSnake ?g = Some ?g'" by (simp add: step_defs eval_defs)
  from moveSnake_distinct [OF a b] a b show ?thesis by (simp add: eval_defs)
qed

section \<open>What the handlers leave alone\<close>

lemma handleKeyPress_keeps:
  "snake (handleKeyPress key g) = snake g \<and> food (handleKeyPress key g) = food g
   \<and> score (handleKeyPress key g) = score g \<and> highScore (handleKeyPress key g) = highScore g"
  by (simp add: handleKeyPress_def Let_def)

lemma handleTouch_keeps:
  "snake (handleTouch d g) = snake g \<and> food (handleTouch d g) = food g
   \<and> score (handleTouch d g) = score g \<and> highScore (handleTouch d g) = highScore g"
  by (simp add: handleTouch_def)

lemma togglePause_keeps:
  "snake (togglePause g) = snake g \<and> food (togglePause g) = food g
   \<and> score (togglePause g) = score g \<and> highScore (togglePause g) = highScore g"
  by (simp add: togglePause_def)

lemma updateGridSize_keeps:
  "snake (updateGridSize rect g) = snake g \<and> food (updateGridSize rect g) = food g
   \<and> score (updateGridSize rect g) = score g
   \<and> highScore (updateGridSize rect g) = highScore g"
  by (simp add: updateGridSize_def split: option.splits)

section \<open>The food is never on the snake\<close>

lemma moveSnake_food_free:
  assumes "food g \<notin> set (snake g)" and "moveSnake g = Some g'"
  shows "food g' \<notin> set (snake g')"
proof (cases "snake g")
  case Nil
  with assms show ?thesis by (simp add: moveSnake_def)
next
  case (Cons h0 t)
  let ?nh = "moveHead (direction g) h0"
  show ?thesis
  proof (cases "checkCollision (gridWidth g) (gridHeight g) ?nh (snake g)")
    case True
    with moveSnake_fatal [OF Cons True] assms show ?thesis by auto
  next
    case free: False
    show ?thesis
    proof (cases "?nh = food g")
      case True
      from moveSnake_eat [OF Cons free True assms(2)] show ?thesis by blast
    next
      case False
      from assms(1) have "food g \<notin> set (butlast (snake g))" by (auto dest: in_set_butlastD)
      with moveSnake_step [OF Cons free False] assms False show ?thesis
        by auto
    qed
  qed
qed

lemma dispatch_food_free:
  assumes "food g \<notin> set (snake g)" and "dispatch e g = Some g'"
  shows "food g' \<notin> set (snake g')"
proof (cases e)
  case Tick
  with assms show ?thesis by (auto split: if_splits dest: moveSnake_food_free)
next
  case (KeyDown key)
  with assms show ?thesis by (auto simp: handleKeyPress_keeps)
next
  case (Touch d)
  with assms show ?thesis by (auto simp: handleTouch_keeps)
next
  case ClickStart
  with assms show ?thesis
    by (auto simp: startGame_def split: if_splits option.splits dest!: resetGame_Some)
next
  case ClickPause
  with assms show ?thesis by (auto simp: togglePause_keeps)
next
  case ClickReset
  with assms show ?thesis by (auto dest!: resetGame_Some)
next
  case Timeout
  with assms show ?thesis by (auto simp: startTimeout_def split: if_splits)
next
  case (Resize rect)
  with assms show ?thesis by (auto simp: updateGridSize_keeps)
qed

lemma run_food_free:
  "food g \<notin> set (snake g) \<Longrightarrow> run es g = Some g' \<Longrightarrow> food g' \<notin> set (snake g')"
proof (induction es arbitrary: g)
  case Nil
  then show ?case by simp
next
  case (Cons e es)
  then show ?case by (auto split: option.splits dest: dispatch_food_free)
qed

lemma initialApp_food_free: "food (initialApp item rs) \<notin> set (snake (initialApp item rs))"
  by (simp add: initialApp_def INITIAL_SNAKE_def INITIAL_FOOD_def)

text \<open>
  Claim C4. The food is never on the snake: the cell \<^verbatim>\<open>generateFood\<close> returns is outside
  the body it was given, the loop returns as soon as one round draws a free cell, and
  after every sequence of events from the mounted component (ticks among them) the food
  cell is on no cell of the snake. How the cells are distributed is not part of the
  statement.
\<close>

theorem food_never_on_snake:
  "(generateFood w h body rs = Some (f, rs') \<longrightarrow> f \<notin> set body)
   \<and> (candidate w h rs n \<notin> set body \<longrightarrow> generateFood w h body rs \<noteq> None)
   \<and> (run es (initialApp item rs0) = Some g \<longrightarrow> food g \<notin> set (snake g))"
proof (intro conjI impI)
  assume "generateFood w h body rs = Some (f, rs')"
  from generateFood_outside [OF this] show "f \<notin> set body" by simp
next
  assume "candidate w h rs n \<notin> set body"
  from generateFood_returns [OF this] show "generateFood w h body rs \<noteq> None" by auto
next
  assume "run es (initialApp item rs0) = Some g"
  with initialApp_food_free show "food g \<notin> set (snake g)" by (rule run_food_free)
qed

theorem food_never_on_snake_witness:
  "generateFood 25 20 INITIAL_SNAKE (2 / 5 ## 1 / 2 ## sconst 0)
     = Some (\<lparr>posx = 0, posy = 0\<rparr>, sconst 0)
   \<and> \<lparr>posx = 0, posy = 0\<rparr> \<notin> set INITIAL_SNAKE
   \<and> candidate 25 20 (2 / 5 ## 1 / 2 ## sconst 0) 0 \<in> set INITIAL_SNAKE
   \<and> candidate 25 20 (2 / 5 ## 1 / 2 ## sconst 0) 1 \<notin> set INITIAL_SNAKE
   \<and> run play (initialApp None (sconst 0)) =
       Some ((initialApp None (sconst 0))
              \<lparr>snake := [\<lparr>posx = 15, posy = 15\<rparr>, \<lparr>posx = 15, posy = 14\<rparr>],
               food := \<lparr>posx = 0, posy = 0\<rparr>, direction := DOWN, gameState := PLAYING,
               score := 10, highScore := Num 10, localStorage := Some ''10''\<rparr>)
   \<and> \<lparr>posx = 0, posy = 0\<rparr> \<notin> set [\<lparr>posx = 15, posy = 15\<rparr>, \<lparr>posx = 15, posy = 14\<rparr>]"
proof -
  let ?rs = "2 / 5 ## 1 / 2 ## sconst (0::real)"
  let ?g = "(initialApp None (sconst 0))
              \<lparr>snake := [\<lparr>posx = 15, posy = 15\<rparr>, \<lparr>posx = 15, posy = 14\<rparr>],
               food := \<lparr>posx = 0, posy = 0\<rparr>, direction := DOWN, gameState := PLAYING,
               score := 10, highScore := Num 10, localStorage := Some ''10''\<rparr>"
  have a: "generateFood 25 20 INITIAL_SNAKE ?rs = Some (\<lparr>posx = 0, posy = 0\<rparr>, sconst 0)"
    by (simp add: step_defs eval_defs)
  have b: "candidate 25 20 ?rs 1 \<notin> set INITIAL_SNAKE"
    by (simp add: candidate_def numeral_2_eq_2 numeral_3_eq_3 eval_defs)
  have b0: "candidate 25 20 ?rs 0 \<in> set INITIAL_SNAKE"
    by (simp add: candidate_def eval_defs)
  have c: "run play (initialApp None (sconst 0)) = Some ?g"
    by (simp add: play_def step_defs eval_defs)
  from food_never_on_snake [of 25 20 INITIAL_SNAKE ?rs "\<lparr>posx = 0, posy = 0\<rparr>" "sconst 0" 1
      play None "sconst 0" ?g] a b b0 c
  show ?thesis by (simp add: eval_defs)
qed

section \<open>Direction input\<close>

lemma handleTouch_eq:
  "handleTouch d g =
     (if gameState g = PLAYING \<and> d \<noteq> opposite (direction g) then g\<lparr>direction := d\<rparr> else g)"
  by (cases d; cases "direction g") (auto simp: handleTouch_def)

lemma handleKeyPress_direction:
  "keyDirection (toLowerCase key) = Some d \<Longrightarrow>
   handleKeyPress key g =
     (if gameState g = PLAYING \<and> d \<noteq> opposite (direction g) then g\<lparr>direction := d\<rparr> else g)"
  by (cases "direction g")
    (auto simp: handleKeyPress_def keyDirection_def Let_def split: if_splits)

text \<open>
  Claim C5. A direction request, from a touch button or from a direction key, is adopted
  when the game is playing and the request is not the direct opposite of the stored
  direction; in every other case (the opposite was requested, or the game is not
  playing) the state, and with it the stored direction, is unchanged.
\<close>

theorem requestDirection_arbitration:
  "handleTouch d g =
     (if gameState g = PLAYING \<and> d \<noteq> opposite (direction g) then g\<lparr>direction := d\<rparr> else g)
   \<and> (keyDirection (toLowerCase key) = Some d \<longrightarrow>
        handleKeyPress key g =
          (if gameState g = PLAYING \<and> d \<noteq> opposite (direction g)
           then g\<lparr>direction := d\<rparr> else g))"
  by (simp add: handleTouch_eq handleKeyPress_direction)

theorem requestDirection_arbitration_witness:
  "keyDirection (toLowerCase ''ArrowUp'') = Some UP
   \<and> direction (handleKeyPress ''ArrowUp''
        ((initialApp None (sconst 0))\<lparr>gameState := PLAYING, direction := DOWN\<rparr>)) = DOWN
   \<and> direction (handleTouch UP
        ((initialApp None (sconst 0))\<lparr>gameState := PLAYING, direction := DOWN\<rparr>)) = DOWN
   \<and> direction (handleKeyPress ''ArrowUp''
        ((initialApp None (sconst 0))\<lparr>gameState := PLAYING\<rparr>)) = UP
   \<and> direction (handleTouch UP
        ((initialApp None (sconst 0))\<lparr>gameState := PLAYING\<rparr>)) = UP
   \<and> direction (handleKeyPress ''ArrowUp''
        ((initialApp None (sconst 0))\<lparr>gameState := PAUSED\<rparr>)) = RIGHT"
proof -
  let ?down = "(initialApp None (sconst 0))\<lparr>gameState := PLAYING, direction := DOWN\<rparr>"
  let ?right = "(initialApp None (sconst 0))\<lparr>gameState := PLAYING\<rparr>"
  let ?paused = "(initialApp None (sconst 0))\<lparr>gameState := PAUSED\<rparr>"
  have k: "keyDirection (toLowerCase ''ArrowUp'') = Some UP"
    by (simp add: keyDirection_def toLowerCase_def lowerChar_def)
  from k requestDirection_arbitration [of UP ?down "''ArrowUp''"]
    requestDirection_arbitration [of UP ?right "''ArrowUp''"]
    requestDirection_arbitration [of UP ?paused "''ArrowUp''"]
  show ?thesis by (simp add: eval_defs)
qed

section \<open>Keyboard and pause\<close>

lemma handleKeyPress_idle: "gameState g \<noteq> PLAYING \<Longrightarrow> handleKeyPress key g = g"
  by (simp add: handleKeyPress_def)

lemma run_keys_idle: "gameState g \<noteq> PLAYING \<Longrightarrow> run (map KeyDown keys) g = Some g"
  by (induction keys) (simp_all add: handleKeyPress_idle)

text \<open>
  Claim C9. The keyboard can only pause: a key event received while the game is not
  playing (paused, ready or over) leaves the whole state unchanged, and so does any
  sequence of key events, so no key resumes a paused game; while playing, the space bar
  sets the state to PAUSED; and whenever a key event changes the state of the game, it
  is from PLAYING to PAUSED.
\<close>

theorem keyboard_only_pauses:
  "(gameState g \<noteq> PLAYING \<longrightarrow> handleKeyPress key g = g \<and> run (map KeyDown keys) g = Some g)
   \<and> (gameState g = PLAYING \<longrightarrow> handleKeyPress '' '' g = g\<lparr>gameState := PAUSED\<rparr>)
   \<and> (gameState (handleKeyPress key g) \<noteq> gameState g \<longrightarrow>
        gameState g = PLAYING \<and> gameState (handleKeyPress key g) = PAUSED)"
proof (intro conjI impI)
  assume "gameState g \<noteq> PLAYING"
  then show "handleKeyPress key g = g" by (rule handleKeyPress_idle)
next
  assume "gameState g \<noteq> PLAYING"
  then show "run (map KeyDown keys) g = Some g" by (rule run_keys_idle)
next
  assume "gameState g = PLAYING"
  then show "handleKeyPress '' '' g = g\<lparr>gameState := PAUSED\<rparr>"
    by (simp add: handleKeyPress_def toLowerCase_def lowerChar_def)
next
  assume "gameState (handleKeyPress key g) \<noteq> gameState g"
  then show "gameState g = PLAYING" by (auto simp: handleKeyPress_def split: if_splits)
next
  assume "gameState (handleKeyPress key g) \<noteq> gameState g"
  then show "gameState (handleKeyPress key g) = PAUSED"
    by (auto simp: handleKeyPress_def Let_def split: if_splits)
qed

theorem keyboard_only_pauses_witness:
  "gameState ((initialApp None (sconst 0))\<lparr>gameState := PAUSED\<rparr>) \<noteq> PLAYING
   \<and> handleKeyPress '' '' ((initialApp None (sconst 0))\<lparr>gameState := PAUSED\<rparr>)
       = (initialApp None (sconst 0))\<lparr>gameState := PAUSED\<rparr>
   \<and> run (map KeyDown ['' '', ''w'', ''Enter'']) ((initialApp None (sconst 0))\<lparr>gameState := PAUSED\<rparr>)
       = Some ((initialApp None (sconst 0))\<lparr>gameState := PAUSED\<rparr>)
   \<and> handleKeyPress '' '' ((initialApp None (sconst 0))\<lparr>gameState := PLAYING\<rparr>)
       = (initialApp None (sconst 0))\<lparr>gameState := PAUSED\<rparr>
   \<and> gameState (handleKeyPress '' '' ((initialApp None (sconst 0))\<lparr>gameState := PLAYING\<rparr>))
       \<noteq> gameState ((initialApp None (sconst 0))\<lparr>gameState := PLAYING\<rparr>)"
proof -
  let ?paused = "(initialApp None (sconst 0))\<lparr>gameState := PAUSED\<rparr>"
  let ?playing = "(initialApp None (sconst 0))\<lparr>gameState := PLAYING\<rparr>"
  have a: "gameState ?paused \<noteq> PLAYING" by simp
  have b: "gameState ?playing = PLAYING" by simp
  from a b keyboard_only_pauses [of ?paused "'' ''" "['' '', ''w'', ''Enter'']"]
    keyboard_only_pauses [of ?playing "'' ''" "[]"]
  show ?thesis by (simp add: handleKeyPress_def)
qed

section \<open>Start and reset\<close>

text \<open>
  Claim C8. A start command while the game is playing or paused changes nothing. A
  start command while the game is over resets first (initial snake, a freshly generated
  food cell off that snake, initial direction, score 0), leaves the state at START with
  one more timeout pending, and the timeout then sets the state to PLAYING. The food
  loop has to return for this: it does as soon as one round draws a cell off the
  initial snake.
\<close>

theorem startGame_rule:
  "(gameState g = PLAYING \<or> gameState g = PAUSED \<longrightarrow> startGame g = Some g)
   \<and> (gameState g = GAME_OVER
        \<and> candidate (gridWidth g) (gridHeight g) (mathRandom g) n \<notin> set INITIAL_SNAKE \<longrightarrow>
        (\<exists>f rs'. generateFood (gridWidth g) (gridHeight g) INITIAL_SNAKE (mathRandom g)
                    = Some (f, rs')
           \<and> f \<notin> set INITIAL_SNAKE
           \<and> startGame g =
               Some (g\<lparr>snake := INITIAL_SNAKE, food := f, direction := INITIAL_DIRECTION,
                       score := 0, gameState := START, mathRandom := rs',
                       timeouts := Suc (timeouts g)\<rparr>)
           \<and> run [ClickStart, Timeout] g =
               Some (g\<lparr>snake := INITIAL_SNAKE, food := f, direction := INITIAL_DIRECTION,
                       score := 0, gameState := PLAYING, mathRandom := rs'\<rparr>)))"
proof (intro conjI impI)
  assume "gameState g = PLAYING \<or> gameState g = PAUSED"
  then show "startGame g = Some g" by (auto simp: startGame_def)
next
  assume a: "gameState g = GAME_OVER
    \<and> candidate (gridWidth g) (gridHeight g) (mathRandom g) n \<notin> set INITIAL_SNAKE"
  then obtain g' where "resetGame g = Some g'" using resetGame_returns by blast
  from resetGame_Some [OF this] obtain f rs'
    where gf: "generateFood (gridWidth g) (gridHeight g) INITIAL_SNAKE (mathRandom g)
                 = Some (f, rs')"
      and out: "f \<notin> set INITIAL_SNAKE"
    by blast
  from a gf have sg: "startGame g =
      Some (g\<lparr>snake := INITIAL_SNAKE, food := f, direction := INITIAL_DIRECTION, score := 0,
              gameState := START, mathRandom := rs', timeouts := Suc (timeouts g)\<rparr>)"
    by (simp add: startGame_def resetGame_def)
  then have "run [ClickStart, Timeout] g =
      Some (g\<lparr>snake := INITIAL_SNAKE, food := f, direction := INITIAL_DIRECTION, score := 0,
              gameState := PLAYING, mathRandom := rs'\<rparr>)"
    by (simp add: startTimeout_def)
  with gf out sg
  show "\<exists>f rs'. generateFood (gridWidth g) (gridHeight g) INITIAL_SNAKE (mathRandom g)
                    = Some (f, rs')
           \<and> f \<notin> set INITIAL_SNAKE
           \<and> startGame g =
               Some (g\<lparr>snake := INITIAL_SNAKE, food := f, direction := INITIAL_DIRECTION,
                       score := 0, gameState := START, mathRandom := rs',
                       timeouts := Suc (timeouts g)\<rparr>)
           \<and> run [ClickStart, Timeout] g =
               Some (g\<lparr>snake := INITIAL_SNAKE, food := f, direction := INITIAL_DIRECTION,
                       score := 0, gameState := PLAYING, mathRandom := rs'\<rparr>)"
    by blast
qed

theorem startGame_rule_witness:
  "startGame ((initialApp None (sconst 0))\<lparr>gameState := PAUSED, score := 30\<rparr>)
     = Some ((initialApp None (sconst 0))\<lparr>gameState := PAUSED, score := 30\<rparr>)
   \<and> candidate 25 20 (sconst 0) 0 \<notin> set INITIAL_SNAKE
   \<and> run [ClickStart, Timeout]
       ((initialApp None (sconst 0))
          \<lparr>snake := [\<lparr>posx = 24, posy = 3\<rparr>, \<lparr>posx = 23, posy = 3\<rparr>], direction := UP,
           gameState := GAME_OVER, score := 10\<rparr>)
     = Some ((initialApp None (sconst 0))\<lparr>food := \<lparr>posx = 0, posy = 0\<rparr>, gameState := PLAYING\<rparr>)"
proof -
  let ?paused = "(initialApp None (sconst 0))\<lparr>gameState := PAUSED, score := 30\<rparr>"
  let ?over = "(initialApp None (sconst 0))
          \<lparr>snake := [\<lparr>posx = 24, posy = 3\<rparr>, \<lparr>posx = 23, posy = 3\<rparr>], direction := UP,
           gameState := GAME_OVER, score := 10\<rparr>"
  have a: "gameState ?paused = PLAYING \<or> gameState ?paused = PAUSED" by simp
  have b: "gameState ?over = GAME_OVER
      \<and> candidate (gridWidth ?over) (gridHeight ?over) (mathRandom ?over) 0 \<notin> set INITIAL_SNAKE"
    by (simp add: candidate_def eval_defs)
  have c: "generateFood (gridWidth ?over) (gridHeight ?over) INITIAL_SNAKE (mathRandom ?over)
      = Some (\<lparr>posx = 0, posy = 0\<rparr>, sconst 0)"
    by (simp add: step_defs eval_defs)
  from startGame_rule [of ?paused 0] a have p: "startGame ?paused = Some ?paused" by blast
  from startGame_rule [of ?over 0] b c
  have "run [ClickStart, Timeout] ?over =
      Some (?over\<lparr>snake := INITIAL_SNAKE, food := \<lparr>posx = 0, posy = 0\<rparr>,
                  direction := INITIAL_DIRECTION, score := 0, gameState := PLAYING,
                  mathRandom := sconst 0\<rparr>)"
    by auto
  with p b show ?thesis by (simp add: candidate_def eval_defs)
qed

text \<open>
  Claim C10. Whatever the state, a reset that returns yields a snake of the single cell
  (10, 10), direction RIGHT, score 0, state START and a food cell other than (10, 10);
  and it returns as soon as one round of the food loop draws a cell off the initial
  snake.
\<close>

theorem resetGame_core_state:
  "(resetGame g = Some g' \<longrightarrow>
      snake g' = [\<lparr>posx = 10, posy = 10\<rparr>] \<and> direction g' = RIGHT \<and> score g' = 0
      \<and> gameState g' = START \<and> food g' \<noteq> \<lparr>posx = 10, posy = 10\<rparr>)
   \<and> (candidate (gridWidth g) (gridHeight g) (mathRandom g) n \<notin> set INITIAL_SNAKE \<longrightarrow>
        resetGame g \<noteq> None)"
proof (rule conjI; rule impI)
  assume "resetGame g = Some g'"
  from resetGame_Some [OF this]
  show "snake g' = [\<lparr>posx = 10, posy = 10\<rparr>] \<and> direction g' = RIGHT \<and> score g' = 0
      \<and> gameState g' = START \<and> food g' \<noteq> \<lparr>posx = 10, posy = 10\<rparr>"
    by (auto simp: INITIAL_SNAKE_def INITIAL_DIRECTION_def)
next
  assume "candidate (gridWidth g) (gridHeight g) (mathRandom g) n \<notin> set INITIAL_SNAKE"
  from resetGame_returns [OF this] show "resetGame g \<noteq> None" by auto
qed

theorem resetGame_core_state_witness:
  "resetGame ((initialApp None (2 / 5 ## 1 / 2 ## sconst (3 / 10)))
       \<lparr>snake := [\<lparr>posx = 3, posy = 4\<rparr>, \<lparr>posx = 3, posy = 5\<rparr>], direction := UP,
        gameState := PAUSED, score := 10\<rparr>)
     = Some ((initialApp None (sconst (3 / 10)))\<lparr>food := \<lparr>posx = 7, posy = 6\<rparr>\<rparr>)
   \<and> candidate 25 20 (2 / 5 ## 1 / 2 ## sconst (3 / 10)) 1 \<notin> set INITIAL_SNAKE
   \<and> snake ((initialApp None (sconst (3 / 10)))\<lparr>food := \<lparr>posx = 7, posy = 6\<rparr>\<rparr>)
       = [\<lparr>posx = 10, posy = 10\<rparr>]
   \<and> direction ((initialApp None (sconst (3 / 10)))\<lparr>food := \<lparr>posx = 7, posy = 6\<rparr>\<rparr>) = RIGHT"
proof -
  let ?g = "(initialApp None (2 / 5 ## 1 / 2 ## sconst (3 / 10)))
       \<lparr>snake := [\<lparr>posx = 3, posy = 4\<rparr>, \<lparr>posx = 3, posy = 5\<rparr>], direction := UP,
        gameState := PAUSED, score := 10\<rparr>"
  let ?g' = "(initialApp None (sconst (3 / 10)))\<lparr>food := \<lparr>posx = 7, posy = 6\<rparr>\<rparr>"
  have a: "resetGame ?g = Some ?g'"
    by (simp add: step_defs eval_defs)
  have b: "candidate (gridWidth ?g) (gridHeight ?g) (mathRandom ?g) 1 \<notin> set INITIAL_SNAKE"
    by (simp add: candidate_def numeral_2_eq_2 numeral_3_eq_3 eval_defs)
  from resetGame_core_state [of ?g ?g' 1] a b show ?thesis
    by (simp add: candidate_def numeral_2_eq_2 numeral_3_eq_3 eval_defs)
qed

section \<open>High score\<close>

lemma moveSnake_highScore:
  assumes "highScore g = Num h" and "0 \<le> score g" and "score g \<le> h"
    and "moveSnake g = Some g'"
  shows "highScore g' = Num (max h (score g')) \<and> 0 \<le> score g'"
proof (cases "snake g")
  case Nil
  with assms show ?thesis by (simp add: moveSnake_def)
next
  case (Cons h0 t)
  let ?nh = "moveHead (direction g) h0"
  show ?thesis
  proof (cases "checkCollision (gridWidth g) (gridHeight g) ?nh (snake g)")
    case True
    with moveSnake_fatal [OF Cons True] assms show ?thesis by auto
  next
    case free: False
    show ?thesis
    proof (cases "?nh = food g")
      case True
      from moveSnake_eat [OF Cons free True assms(4)] assms(1,2,3) show ?thesis by auto
    next
      case False
      with moveSnake_step [OF Cons free False] assms show ?thesis by auto
    qed
  qed
qed

lemma dispatch_highScore:
  assumes "highScore g = Num h" and "0 \<le> score g" and "score g \<le> h"
    and "dispatch e g = Some g'"
  shows "highScore g' = Num (max h (score g')) \<and> 0 \<le> score g'"
proof (cases e)
  case Tick
  with assms show ?thesis by (auto split: if_splits dest: moveSnake_highScore)
next
  case (KeyDown key)
  with assms show ?thesis by (auto simp: handleKeyPress_keeps)
next
  case (Touch d)
  with assms show ?thesis by (auto simp: handleTouch_keeps)
next
  case ClickStart
  with assms show ?thesis
    by (auto simp: startGame_def split: if_splits option.splits dest!: resetGame_Some)
next
  case ClickPause
  with assms show ?thesis by (auto simp: togglePause_keeps)
next
  case ClickReset
  with assms show ?thesis by (auto dest!: resetGame_Some)
next
  case Timeout
  with assms show ?thesis by (auto simp: startTimeout_def split: if_splits)
next
  case (Resize rect)
  with assms show ?thesis by (auto simp: updateGridSize_keeps)
qed

lemma score_in_scoresSeen: "score g \<in> set (scoresSeen es g)"
  by (cases es) simp_all

lemma run_highScore:
  "highScore g = Num h \<Longrightarrow> 0 \<le> score g \<Longrightarrow> score g \<le> h \<Longrightarrow> run es g = Some g'
     \<Longrightarrow> highScore g' = Num (max h (Max (set (scoresSeen es g))))"
proof (induction es arbitrary: g h)
  case Nil
  then show ?case by simp
next
  case (Cons e es)
  from Cons.prems(4) obtain g1 where d: "dispatch e g = Some g1" and r: "run es g1 = Some g'"
    by (auto split: option.splits)
  from dispatch_highScore [OF Cons.prems(1,2,3) d]
  have h1: "highScore g1 = Num (max h (score g1))" and nn: "0 \<le> score g1" by simp_all
  have "highScore g' = Num (max (max h (score g1)) (Max (set (scoresSeen es g1))))"
    by (rule Cons.IH [OF h1 nn _ r]) simp
  moreover have "score g1 \<le> Max (set (scoresSeen es g1))"
    by (simp add: score_in_scoresSeen)
  moreover have "Max (set (scoresSeen (e # es) g)) = max (score g) (Max (set (scoresSeen es g1)))"
  proof -
    have "set (scoresSeen es g1) \<noteq> {}" using score_in_scoresSeen [of g1 es] by auto
    with d show ?thesis by simp
  qed
  ultimately show ?case using Cons.prems(3) by (simp add: max_def)
qed

text \<open>With no stored record the high score is the largest score shown so far.\<close>

lemma highScore_fresh_storage:
  assumes "run es (initialApp None rs) = Some g"
  shows "highScore g = Num (Max (set (scoresSeen es (initialApp None rs))))"
proof -
  let ?a = "initialApp None rs"
  have h: "highScore ?a = Num 0" and s: "score ?a = 0"
    by (simp_all add: eval_defs)
  from s have "0 \<le> score ?a" and "score ?a \<le> 0" by simp_all
  from run_highScore [OF h this assms]
  have "highScore g = Num (max 0 (Max (set (scoresSeen es ?a))))" .
  moreover have "0 \<le> Max (set (scoresSeen es ?a))"
    using score_in_scoresSeen [of ?a es] s by (simp add: Max_ge_iff)
  ultimately show ?thesis by simp
qed

text \<open>A high score that is NaN stays NaN: no score compares greater.\<close>

lemma highScore_NaN_stays:
  assumes "highScore g = NaN" and "dispatch e g = Some g'"
  shows "highScore g' = NaN"
proof (cases e)
  case Tick
  show ?thesis
  proof (cases "gameState g = PLAYING")
    case False
    with Tick assms show ?thesis by simp
  next
    case True
    with Tick assms have m: "moveSnake g = Some g'" by simp
    show ?thesis
    proof (cases "snake g")
      case Nil
      with m assms(1) show ?thesis by (simp add: moveSnake_def)
    next
      case (Cons h0 t)
      let ?nh = "moveHead (direction g) h0"
      show ?thesis
      proof (cases "checkCollision (gridWidth g) (gridHeight g) ?nh (snake g)")
        case True
        with moveSnake_fatal [OF Cons True] m assms(1) show ?thesis by auto
      next
        case free: False
        show ?thesis
        proof (cases "?nh = food g")
          case True
          from moveSnake_eat [OF Cons free True m] assms(1) show ?thesis by simp
        next
          case False
          with moveSnake_step [OF Cons free False] m assms(1) show ?thesis by auto
        qed
      qed
    qed
  qed
next
  case (KeyDown key)
  with assms show ?thesis by (auto simp: handleKeyPress_keeps)
next
  case (Touch d)
  with assms show ?thesis by (auto simp: handleTouch_keeps)
next
  case ClickStart
  with assms show ?thesis
    by (auto simp: startGame_def split: if_splits option.splits dest!: resetGame_Some)
next
  case ClickPause
  with assms show ?thesis by (auto simp: togglePause_keeps)
next
  case ClickReset
  with assms show ?thesis by (auto dest!: resetGame_Some)
next
  case Timeout
  with assms show ?thesis by (auto simp: startTimeout_def split: if_splits)
next
  case (Resize rect)
  with assms show ?thesis by (auto simp: updateGridSize_keeps)
qed

text \<open>
  Claim C6, as amended. From a state whose high score is a number at least as large as
  its score (the score being non-negative), every event leaves the high score at the
  larger of its old value and the new score: it never decreases, and it changes exactly
  when the new score exceeds it. After any sequence of events it is the larger of its
  starting value and the largest score shown since.
\<close>

theorem highScore_running_maximum:
  assumes "highScore g0 = Num h0" and "0 \<le> score g0" and "score g0 \<le> h0"
  shows "(dispatch e g0 = Some g1 \<longrightarrow> highScore g1 = Num (max h0 (score g1)))
       \<and> (run es g0 = Some g \<longrightarrow> highScore g = Num (max h0 (Max (set (scoresSeen es g0)))))"
  using dispatch_highScore [OF assms] run_highScore [OF assms] by blast

theorem highScore_running_maximum_witness:
  "highScore (initialApp None (sconst 0)) = Num 0
   \<and> score (initialApp None (sconst 0)) = 0
   \<and> dispatch Tick ((initialApp None (sconst 0))\<lparr>food := \<lparr>posx = 11, posy = 10\<rparr>, gameState := PLAYING\<rparr>)
       = Some ((initialApp None (sconst 0))
                \<lparr>snake := [\<lparr>posx = 11, posy = 10\<rparr>, \<lparr>posx = 10, posy = 10\<rparr>],
                 food := \<lparr>posx = 0, posy = 0\<rparr>, gameState := PLAYING, score := 10,
                 highScore := Num 10, localStorage := Some ''10''\<rparr>)
   \<and> run play (initialApp None (sconst 0)) =
       Some ((initialApp None (sconst 0))
              \<lparr>snake := [\<lparr>posx = 15, posy = 15\<rparr>, \<lparr>posx = 15, posy = 14\<rparr>],
               food := \<lparr>posx = 0, posy = 0\<rparr>, direction := DOWN, gameState := PLAYING,
               score := 10, highScore := Num 10, localStorage := Some ''10''\<rparr>)
   \<and> Num 10 = Num (max 0 (Max (set (scoresSeen play (initialApp None (sconst 0))))))"
proof -
  let ?a = "initialApp None (sconst 0)"
  let ?b = "?a\<lparr>food := \<lparr>posx = 11, posy = 10\<rparr>, gameState := PLAYING\<rparr>"
  let ?b' = "?a\<lparr>snake := [\<lparr>posx = 11, posy = 10\<rparr>, \<lparr>posx = 10, posy = 10\<rparr>],
                 food := \<lparr>posx = 0, posy = 0\<rparr>, gameState := PLAYING, score := 10,
                 highScore := Num 10, localStorage := Some ''10''\<rparr>"
  let ?g = "?a\<lparr>snake := [\<lparr>posx = 15, posy = 15\<rparr>, \<lparr>posx = 15, posy = 14\<rparr>],
               food := \<lparr>posx = 0, posy = 0\<rparr>, direction := DOWN, gameState := PLAYING,
               score := 10, highScore := Num 10, localStorage := Some ''10''\<rparr>"
  have a1: "highScore ?a = Num 0" and a2: "0 \<le> score ?a" and a3: "score ?a \<le> 0"
    by (simp_all add: eval_defs)
  have b1: "highScore ?b = Num 0" and b2: "0 \<le> score ?b" and b3: "score ?b \<le> 0"
    by (simp_all add: eval_defs)
  have d: "dispatch Tick ?b = Some ?b'"
    by (simp add: step_defs eval_defs)
  have r: "run play ?a = Some ?g"
    by (simp add: play_def step_defs eval_defs)
  from highScore_running_maximum [OF a1 a2 a3, of Tick ?g play ?g] r
  have "highScore ?g = Num (max 0 (Max (set (scoresSeen play ?a))))" by blast
  moreover from highScore_running_maximum [OF b1 b2 b3, of Tick ?b' "[]" ?b] d
  have "highScore ?b' = Num (max 0 (score ?b'))" by blast
  ultimately show ?thesis using a1 d r by (simp add: eval_defs)
qed

text \<open>
  The claim as first stated, that the high score always equals the largest score shown
  in the running process, fails when local storage holds an earlier record: with the
  entry \<^verbatim>\<open>50\<close> the session \<open>play\<close> shows the scores 0 and 10 and ends with high score 50.
\<close>

theorem highScore_not_maximum_seen:
  "run play (initialApp (Some ''50'') (sconst 0)) =
     Some ((initialApp (Some ''50'') (sconst 0))
            \<lparr>snake := [\<lparr>posx = 15, posy = 15\<rparr>, \<lparr>posx = 15, posy = 14\<rparr>],
             food := \<lparr>posx = 0, posy = 0\<rparr>, direction := DOWN, gameState := PLAYING,
             score := 10\<rparr>)
   \<and> highScore ((initialApp (Some ''50'') (sconst 0))
            \<lparr>snake := [\<lparr>posx = 15, posy = 15\<rparr>, \<lparr>posx = 15, posy = 14\<rparr>],
             food := \<lparr>posx = 0, posy = 0\<rparr>, direction := DOWN, gameState := PLAYING,
             score := 10\<rparr>) = Num 50
   \<and> Max (set (scoresSeen play (initialApp (Some ''50'') (sconst 0)))) = 10
   \<and> highScore ((initialApp (Some ''50'') (sconst 0))
            \<lparr>snake := [\<lparr>posx = 15, posy = 15\<rparr>, \<lparr>posx = 15, posy = 14\<rparr>],
             food := \<lparr>posx = 0, posy = 0\<rparr>, direction := DOWN, gameState := PLAYING,
             score := 10\<rparr>)
       \<noteq> Num (Max (set (scoresSeen play (initialApp (Some ''50'') (sconst 0)))))"
proof -
  have r: "run play (initialApp (Some ''50'') (sconst 0)) =
     Some ((initialApp (Some ''50'') (sconst 0))
            \<lparr>snake := [\<lparr>posx = 15, posy = 15\<rparr>, \<lparr>posx = 15, posy = 14\<rparr>],
             food := \<lparr>posx = 0, posy = 0\<rparr>, direction := DOWN, gameState := PLAYING,
             score := 10\<rparr>)"
    by (simp add: play_def step_defs eval_defs)
  have s: "scoresSeen play (initialApp (Some ''50'') (sconst 0))
      = [0, 0, 0, 0, 0, 0, 0, 0, 0, 0, 0, 0, 0, 10]"
    by (simp add: play_def step_defs eval_defs)
  have h: "highScore ((initialApp (Some ''50'') (sconst 0))
            \<lparr>snake := [\<lparr>posx = 15, posy = 15\<rparr>, \<lparr>posx = 15, posy = 14\<rparr>],
             food := \<lparr>posx = 0, posy = 0\<rparr>, direction := DOWN, gameState := PLAYING,
             score := 10\<rparr>) = Num 50"
    by (simp add: eval_defs)
  from r s h show ?thesis by simp
qed

text \<open>
  Claim C7. The high score at startup for three contents of local storage: the entry
  \<^verbatim>\<open>abc\<close>, which is no integer, gives NaN and not 0; no entry and the empty entry give 0.
\<close>

theorem initialHighScore_unparsable:
  "initialHighScore (Some ''abc'') = NaN \<and> initialHighScore None = Num 0
   \<and> initialHighScore (Some []) = Num 0"
  by (simp add: eval_defs)

end
